theory Spec2Isabelle
  imports Main
begin

section \<open>The module \<open>vtki/qt_plotting.py\<close>\<close>

text \<open>
  The module binds three names to fall-backs, tries two imports inside one
  \<^verbatim>\<open>try\<close> block with a bare \<^verbatim>\<open>except: pass\<close>, and then declares the class
  \<^verbatim>\<open>QtInteractor\<close>, whose \<^verbatim>\<open>__init__\<close> is a straight line of calls into Qt and VTK
  behind one \<^verbatim>\<open>assert\<close>. Qt, VTK and \<^verbatim>\<open>vtki.plotting\<close> are not part of the module:
  what they return is a parameter of the model, and every call into them is
  recorded, in order, in the state.
\<close>

subsection \<open>Exceptions and statements\<close>

datatype exn =
    AssertionError string
  | ImportError string
  | AttributeError string
  | KeyError string

text \<open>
  A statement maps a state to an outcome: the exception raised, if any, and the
  state reached. The state reached is kept when an exception is raised, as the
  bindings made before a \<^verbatim>\<open>raise\<close> stay made.
\<close>

type_synonym 's outcome = "exn option \<times> 's"

type_synonym 's stmt = "'s \<Rightarrow> 's outcome"

text \<open>A block runs its statements in order and stops at the first one that raises.\<close>

fun exec_block :: "'s stmt list \<Rightarrow> 's stmt" where
  "exec_block [] s = (None, s)"
| "exec_block (st # rest) s =
     (case st s of
        (None, s') \<Rightarrow> exec_block rest s'
      | (Some e, s') \<Rightarrow> (Some e, s'))"

text \<open>\<^verbatim>\<open>try: body  except: handler\<close>: the bare \<^verbatim>\<open>except\<close> catches every exception.\<close>

definition try_except :: "'s stmt \<Rightarrow> 's stmt \<Rightarrow> 's stmt" where
  "try_except body handler s =
     (case body s of
        (None, s') \<Rightarrow> (None, s')
      | (Some e, s') \<Rightarrow> handler s')"

definition pass :: "'s stmt" where
  "pass s = (None, s)"

text \<open>\<^verbatim>\<open>assert cond, msg\<close> (with \<^verbatim>\<open>__debug__\<close> true, the interpreter's default).\<close>

definition assert_stmt :: "bool \<Rightarrow> string \<Rightarrow> 's stmt" where
  "assert_stmt cond msg s =
     (if cond then (None, s) else (Some (AssertionError msg), s))"

subsection \<open>Module level: the fall-backs and the guarded imports\<close>

datatype class_ref =
    Dummy_QVTKRenderWindowInteractor  \<comment> \<open>\<^verbatim>\<open>class QVTKRenderWindowInteractor(object): pass\<close>\<close>
  | Vtk_QVTKRenderWindowInteractor    \<comment> \<open>the class of \<^verbatim>\<open>vtk.qt.QVTKRenderWindowInteractor\<close>\<close>
  | BasePlotter                       \<comment> \<open>imported from \<^verbatim>\<open>vtki.plotting\<close>\<close>

datatype func_ref =
    Dummy_pyqtSignal   \<comment> \<open>\<^verbatim>\<open>def pyqtSignal(): return\<close>\<close>
  | PyQt5_pyqtSignal   \<comment> \<open>\<^verbatim>\<open>PyQt5.QtCore.pyqtSignal\<close>\<close>

datatype signal_val =
    NoneVal        \<comment> \<open>what the fall-back function returns\<close>
  | PyQt5_signal   \<comment> \<open>what \<^verbatim>\<open>PyQt5.QtCore.pyqtSignal()\<close> returns\<close>

fun call_pyqtSignal :: "func_ref \<Rightarrow> signal_val" where
  "call_pyqtSignal Dummy_pyqtSignal = NoneVal"
| "call_pyqtSignal PyQt5_pyqtSignal = PyQt5_signal"

record class_obj =
  bases :: "class_ref list"
  render_trigger :: signal_val

record globals =
  has_pyqt :: bool
  QVTKRenderWindowInteractor :: class_ref
  pyqtSignal :: func_ref
  QtInteractor :: "class_obj option"

text \<open>
  Whether each of the two guarded imports succeeds is decided by the
  installation, not by the module.
\<close>

record import_env =
  PyQt5_QtCore_pyqtSignal_ok :: bool
  vtk_qt_QVTKRenderWindowInteractor_ok :: bool

definition assign_has_pyqt :: "bool \<Rightarrow> globals stmt" where
  "assign_has_pyqt b g = (None, g\<lparr>has_pyqt := b\<rparr>)"

definition class_dummy_QVTKRenderWindowInteractor :: "globals stmt" where
  "class_dummy_QVTKRenderWindowInteractor g =
     (None, g\<lparr>QVTKRenderWindowInteractor := Dummy_QVTKRenderWindowInteractor\<rparr>)"

definition def_dummy_pyqtSignal :: "globals stmt" where
  "def_dummy_pyqtSignal g = (None, g\<lparr>pyqtSignal := Dummy_pyqtSignal\<rparr>)"

definition import_pyqtSignal :: "import_env \<Rightarrow> globals stmt" where
  "import_pyqtSignal imp g =
     (if PyQt5_QtCore_pyqtSignal_ok imp
      then (None, g\<lparr>pyqtSignal := PyQt5_pyqtSignal\<rparr>)
      else (Some (ImportError ''PyQt5.QtCore''), g))"

definition import_QVTKRenderWindowInteractor :: "import_env \<Rightarrow> globals stmt" where
  "import_QVTKRenderWindowInteractor imp g =
     (if vtk_qt_QVTKRenderWindowInteractor_ok imp
      then (None, g\<lparr>QVTKRenderWindowInteractor := Vtk_QVTKRenderWindowInteractor\<rparr>)
      else (Some (ImportError ''vtk.qt.QVTKRenderWindowInteractor''), g))"

definition guarded_imports :: "import_env \<Rightarrow> globals stmt" where
  "guarded_imports imp =
     try_except
       (exec_block
          [import_pyqtSignal imp,
           import_QVTKRenderWindowInteractor imp,
           assign_has_pyqt True])
       pass"

text \<open>
  The class statement evaluates its bases and its body when it runs, so it
  reads the bindings that the guarded imports left.
\<close>

definition class_QtInteractor :: "globals stmt" where
  "class_QtInteractor g =
     (None,
      g\<lparr>QtInteractor :=
          Some \<lparr>bases = [QVTKRenderWindowInteractor g, BasePlotter],
                render_trigger = call_pyqtSignal (pyqtSignal g)\<rparr>\<rparr>)"

text \<open>
  The module body from \<^verbatim>\<open>has_pyqt = False\<close> on. The unguarded imports above it
  either succeed or leave no module at all.
\<close>

definition module_body :: "import_env \<Rightarrow> globals stmt" where
  "module_body imp =
     exec_block
       [assign_has_pyqt False,
        class_dummy_QVTKRenderWindowInteractor,
        def_dummy_pyqtSignal,
        guarded_imports imp,
        class_QtInteractor]"

text \<open>The globals of the loaded module; the bindings before it ran do not matter.\<close>

definition loaded :: "import_env \<Rightarrow> globals \<Rightarrow> globals" where
  "loaded imp g0 = snd (module_body imp g0)"

subsection \<open>\<open>QtInteractor.__init__\<close>\<close>

text \<open>Qt and VTK objects are known by their identity only.\<close>

type_synonym ref = nat

datatype call =
    Call_base_init class_ref ref "ref option"
      \<comment> \<open>\<^verbatim>\<open>QVTKRenderWindowInteractor.__init__(self, parent)\<close>, on the class bound to the name\<close>
  | Call_GetRenderWindow ref
  | Call_AddRenderer ref ref
  | Call_GetInteractor ref
  | Call_RemoveObservers ref string
  | Call_Initialize ref
  | Call_vtkInteractorStyleTrackballCamera
  | Call_SetInteractorStyle ref ref
  | Call_add_axes ref

text \<open>What the calls into VTK return.\<close>

record vtk_env =
  GetRenderWindow_result :: "ref \<Rightarrow> ref"
  GetInteractor_result :: "ref \<Rightarrow> ref"
  vtkInteractorStyleTrackballCamera_result :: ref

text \<open>
  The attributes of \<^verbatim>\<open>self\<close> that \<^verbatim>\<open>__init__\<close> reads or writes, and the calls made
  so far. \<open>renderer\<close> is what \<^verbatim>\<open>self.renderer\<close> resolves to: \<^verbatim>\<open>BasePlotter\<close>
  supplies it, and \<^verbatim>\<open>__init__\<close> never assigns it. An attribute that is not set is
  \<open>None\<close>, and reading it raises \<^verbatim>\<open>AttributeError\<close>.
\<close>

record 'c plotter =
  renderer :: "ref option"
  ren_win :: "ref option"
  iren :: "ref option"
  background_color :: "'c option"
  calls :: "call list"

definition foreign :: "call \<Rightarrow> 'c plotter \<Rightarrow> 'c plotter" where
  "foreign c s = s\<lparr>calls := calls s @ [c]\<rparr>"

definition init_base :: "globals \<Rightarrow> ref \<Rightarrow> ref option \<Rightarrow> 'c plotter stmt" where
  "init_base g self parent s =
     (None, foreign (Call_base_init (QVTKRenderWindowInteractor g) self parent) s)"

definition set_ren_win :: "vtk_env \<Rightarrow> ref \<Rightarrow> 'c plotter stmt" where
  "set_ren_win env self s =
     (None,
      (foreign (Call_GetRenderWindow self) s)
        \<lparr>ren_win := Some (GetRenderWindow_result env self)\<rparr>)"

definition add_renderer :: "'c plotter stmt" where
  "add_renderer s =
     (case ren_win s of
        None \<Rightarrow> (Some (AttributeError ''ren_win''), s)
      | Some rw \<Rightarrow>
          (case renderer s of
             None \<Rightarrow> (Some (AttributeError ''renderer''), s)
           | Some r \<Rightarrow> (None, foreign (Call_AddRenderer rw r) s)))"

definition set_iren :: "vtk_env \<Rightarrow> 'c plotter stmt" where
  "set_iren env s =
     (case ren_win s of
        None \<Rightarrow> (Some (AttributeError ''ren_win''), s)
      | Some rw \<Rightarrow>
          (None,
           (foreign (Call_GetInteractor rw) s)
             \<lparr>iren := Some (GetInteractor_result env rw)\<rparr>))"

definition set_background_color :: "(string \<rightharpoonup> 'c) \<Rightarrow> 'c plotter stmt" where
  "set_background_color plotParams s =
     (case plotParams ''background'' of
        None \<Rightarrow> (Some (KeyError ''background''), s)
      | Some c \<Rightarrow> (None, s\<lparr>background_color := Some c\<rparr>))"

definition remove_observers :: "'c plotter stmt" where
  "remove_observers s =
     (case iren s of
        None \<Rightarrow> (Some (AttributeError ''iren''), s)
      | Some i \<Rightarrow> (None, foreign (Call_RemoveObservers i ''MouseMoveEvent'') s))"

definition initialize :: "'c plotter stmt" where
  "initialize s =
     (case iren s of
        None \<Rightarrow> (Some (AttributeError ''iren''), s)
      | Some i \<Rightarrow> (None, foreign (Call_Initialize i) s))"

text \<open>
  \<^verbatim>\<open>istyle = vtk.vtkInteractorStyleTrackballCamera(); self.SetInteractorStyle(istyle)\<close>:
  the local \<^verbatim>\<open>istyle\<close> lives between the two statements only.
\<close>

definition enter_trackball_camera :: "vtk_env \<Rightarrow> ref \<Rightarrow> 'c plotter stmt" where
  "enter_trackball_camera env self s =
     (let istyle = vtkInteractorStyleTrackballCamera_result env;
          s1 = foreign Call_vtkInteractorStyleTrackballCamera s
      in (None, foreign (Call_SetInteractorStyle self istyle) s1))"

definition add_axes :: "ref \<Rightarrow> 'c plotter stmt" where
  "add_axes self s = (None, foreign (Call_add_axes self) s)"

definition QtInteractor_init ::
  "globals \<Rightarrow> vtk_env \<Rightarrow> (string \<rightharpoonup> 'c) \<Rightarrow> ref \<Rightarrow> ref option \<Rightarrow> 'c plotter stmt" where
  "QtInteractor_init g env plotParams self parent =
     exec_block
       [assert_stmt (has_pyqt g) ''Requires PyQt5'',
        init_base g self parent,
        set_ren_win env self,
        add_renderer,
        set_iren env,
        set_background_color plotParams,
        remove_observers,
        initialize,
        enter_trackball_camera env self,
        add_axes self]"

section \<open>Properties\<close>

subsection \<open>What loading the module binds\<close>

lemmas module_defs =
  loaded_def module_body_def guarded_imports_def try_except_def pass_def
  assign_has_pyqt_def class_dummy_QVTKRenderWindowInteractor_def def_dummy_pyqtSignal_def
  import_pyqtSignal_def import_QVTKRenderWindowInteractor_def class_QtInteractor_def

lemma loaded_has_pyqt:
  "has_pyqt (loaded imp g0) =
     (PyQt5_QtCore_pyqtSignal_ok imp \<and> vtk_qt_QVTKRenderWindowInteractor_ok imp)"
  by (simp add: module_defs)

lemma loaded_QVTKRenderWindowInteractor:
  "QVTKRenderWindowInteractor (loaded imp g0) =
     (if PyQt5_QtCore_pyqtSignal_ok imp \<and> vtk_qt_QVTKRenderWindowInteractor_ok imp
      then Vtk_QVTKRenderWindowInteractor else Dummy_QVTKRenderWindowInteractor)"
  by (simp add: module_defs)

lemma loaded_pyqtSignal:
  "pyqtSignal (loaded imp g0) =
     (if PyQt5_QtCore_pyqtSignal_ok imp then PyQt5_pyqtSignal else Dummy_pyqtSignal)"
  by (simp add: module_defs)

lemma loaded_QtInteractor:
  "QtInteractor (loaded imp g0) =
     Some \<lparr>bases = [QVTKRenderWindowInteractor (loaded imp g0), BasePlotter],
           render_trigger = call_pyqtSignal (pyqtSignal (loaded imp g0))\<rparr>"
  by (simp add: module_defs)

text \<open>
  The flag and the class go together: a loaded module whose flag is set has the
  name \<^verbatim>\<open>QVTKRenderWindowInteractor\<close> bound to VTK's class.
\<close>

lemma loaded_has_pyqt_class:
  "has_pyqt (loaded imp g0) \<Longrightarrow>
   QVTKRenderWindowInteractor (loaded imp g0) = Vtk_QVTKRenderWindowInteractor"
  by (simp add: loaded_has_pyqt loaded_QVTKRenderWindowInteractor)

text \<open>
  C10, as stated, at an installation where \<^verbatim>\<open>PyQt5.QtCore\<close> imports and
  \<^verbatim>\<open>vtk.qt.QVTKRenderWindowInteractor\<close> does not: an import has failed and the
  flag is \<open>False\<close>, yet \<^verbatim>\<open>pyqtSignal\<close> is no longer the fall-back function. The
  first import had already rebound the name when the second one raised.
\<close>

theorem pyqtSignal_rebound_counterexample:
  "\<not> vtk_qt_QVTKRenderWindowInteractor_ok
        \<lparr>PyQt5_QtCore_pyqtSignal_ok = True, vtk_qt_QVTKRenderWindowInteractor_ok = False\<rparr>
   \<and> \<not> has_pyqt
        (loaded \<lparr>PyQt5_QtCore_pyqtSignal_ok = True, vtk_qt_QVTKRenderWindowInteractor_ok = False\<rparr>
           \<lparr>has_pyqt = False, QVTKRenderWindowInteractor = Dummy_QVTKRenderWindowInteractor,
            pyqtSignal = Dummy_pyqtSignal, QtInteractor = None\<rparr>)
   \<and> pyqtSignal
        (loaded \<lparr>PyQt5_QtCore_pyqtSignal_ok = True, vtk_qt_QVTKRenderWindowInteractor_ok = False\<rparr>
           \<lparr>has_pyqt = False, QVTKRenderWindowInteractor = Dummy_QVTKRenderWindowInteractor,
            pyqtSignal = Dummy_pyqtSignal, QtInteractor = None\<rparr>)
       \<noteq> Dummy_pyqtSignal"
  by (simp add: loaded_has_pyqt loaded_pyqtSignal)

text \<open>
  C10, amended: \<^verbatim>\<open>has_pyqt\<close> is \<open>True\<close> if and only if both guarded imports
  succeed. When the import of \<^verbatim>\<open>pyqtSignal\<close> fails, both names stay bound to the
  fall-backs (the empty class, and the function that returns \<^verbatim>\<open>None\<close>). When it
  succeeds and the import of \<^verbatim>\<open>QVTKRenderWindowInteractor\<close> fails, the class name
  stays bound to the empty class and \<^verbatim>\<open>pyqtSignal\<close> is bound to PyQt5's.
\<close>

theorem loaded_bindings:
  "(has_pyqt (loaded imp g0) \<longleftrightarrow>
      PyQt5_QtCore_pyqtSignal_ok imp \<and> vtk_qt_QVTKRenderWindowInteractor_ok imp)
   \<and> (\<not> PyQt5_QtCore_pyqtSignal_ok imp \<longrightarrow>
        QVTKRenderWindowInteractor (loaded imp g0) = Dummy_QVTKRenderWindowInteractor
        \<and> pyqtSignal (loaded imp g0) = Dummy_pyqtSignal
        \<and> call_pyqtSignal (pyqtSignal (loaded imp g0)) = NoneVal)
   \<and> (PyQt5_QtCore_pyqtSignal_ok imp \<and> \<not> vtk_qt_QVTKRenderWindowInteractor_ok imp \<longrightarrow>
        QVTKRenderWindowInteractor (loaded imp g0) = Dummy_QVTKRenderWindowInteractor
        \<and> pyqtSignal (loaded imp g0) = PyQt5_pyqtSignal)"
  by (simp add: loaded_has_pyqt loaded_QVTKRenderWindowInteractor loaded_pyqtSignal)

theorem loaded_bindings_witness:
  "\<not> PyQt5_QtCore_pyqtSignal_ok
        \<lparr>PyQt5_QtCore_pyqtSignal_ok = False, vtk_qt_QVTKRenderWindowInteractor_ok = True\<rparr>
   \<and> pyqtSignal
        (loaded \<lparr>PyQt5_QtCore_pyqtSignal_ok = False, vtk_qt_QVTKRenderWindowInteractor_ok = True\<rparr>
           \<lparr>has_pyqt = False, QVTKRenderWindowInteractor = Dummy_QVTKRenderWindowInteractor,
            pyqtSignal = Dummy_pyqtSignal, QtInteractor = None\<rparr>)
       = Dummy_pyqtSignal
   \<and> PyQt5_QtCore_pyqtSignal_ok
        \<lparr>PyQt5_QtCore_pyqtSignal_ok = True, vtk_qt_QVTKRenderWindowInteractor_ok = False\<rparr>
   \<and> \<not> vtk_qt_QVTKRenderWindowInteractor_ok
        \<lparr>PyQt5_QtCore_pyqtSignal_ok = True, vtk_qt_QVTKRenderWindowInteractor_ok = False\<rparr>
   \<and> pyqtSignal
        (loaded \<lparr>PyQt5_QtCore_pyqtSignal_ok = True, vtk_qt_QVTKRenderWindowInteractor_ok = False\<rparr>
           \<lparr>has_pyqt = False, QVTKRenderWindowInteractor = Dummy_QVTKRenderWindowInteractor,
            pyqtSignal = Dummy_pyqtSignal, QtInteractor = None\<rparr>)
       = PyQt5_pyqtSignal"
  using
    loaded_bindings
      [of "\<lparr>PyQt5_QtCore_pyqtSignal_ok = False, vtk_qt_QVTKRenderWindowInteractor_ok = True\<rparr>"
          "\<lparr>has_pyqt = False, QVTKRenderWindowInteractor = Dummy_QVTKRenderWindowInteractor,
            pyqtSignal = Dummy_pyqtSignal, QtInteractor = None\<rparr>"]
    loaded_bindings
      [of "\<lparr>PyQt5_QtCore_pyqtSignal_ok = True, vtk_qt_QVTKRenderWindowInteractor_ok = False\<rparr>"
          "\<lparr>has_pyqt = False, QVTKRenderWindowInteractor = Dummy_QVTKRenderWindowInteractor,
            pyqtSignal = Dummy_pyqtSignal, QtInteractor = None\<rparr>"]
  by simp

subsection \<open>What \<open>__init__\<close> does\<close>

lemmas init_defs =
  QtInteractor_init_def assert_stmt_def init_base_def set_ren_win_def add_renderer_def
  set_iren_def set_background_color_def remove_observers_def initialize_def
  enter_trackball_camera_def add_axes_def foreign_def

lemma init_without_pyqt:
  "\<not> has_pyqt g \<Longrightarrow>
   QtInteractor_init g env plotParams self parent s =
     (Some (AssertionError ''Requires PyQt5''), s)"
  by (simp add: QtInteractor_init_def assert_stmt_def)

text \<open>Past the assertion, only two reads can fail.\<close>

lemma init_with_pyqt_outcome:
  "has_pyqt g \<Longrightarrow>
   fst (QtInteractor_init g env plotParams self parent s) \<in>
     {None, Some (AttributeError ''renderer''), Some (KeyError ''background'')}"
  by (simp add: init_defs Let_def split: option.splits)

lemma init_wires:
  assumes "has_pyqt g" and "renderer s = Some r" and "plotParams ''background'' = Some c"
  shows "QtInteractor_init g env plotParams self parent s =
     (let rw = GetRenderWindow_result env self;
          ir = GetInteractor_result env rw;
          istyle = vtkInteractorStyleTrackballCamera_result env
      in (None,
          s\<lparr>ren_win := Some rw, iren := Some ir, background_color := Some c,
            calls := calls s @
              [Call_base_init (QVTKRenderWindowInteractor g) self parent,
               Call_GetRenderWindow self,
               Call_AddRenderer rw r,
               Call_GetInteractor rw,
               Call_RemoveObservers ir ''MouseMoveEvent'',
               Call_Initialize ir,
               Call_vtkInteractorStyleTrackballCamera,
               Call_SetInteractorStyle self istyle,
               Call_add_axes self]\<rparr>))"
  using assms by (simp add: init_defs Let_def)

text \<open>
  C8: the assertion is the first statement of \<^verbatim>\<open>__init__\<close>. With \<^verbatim>\<open>has_pyqt\<close>
  false, and so in every module loaded where \<^verbatim>\<open>PyQt5.QtCore\<close> does not import,
  the construction raises \<^verbatim>\<open>AssertionError('Requires PyQt5')\<close> and the state is
  the one it started from: no attribute is set and no call into Qt or VTK is
  made. With \<^verbatim>\<open>has_pyqt\<close> true, \<^verbatim>\<open>__init__\<close> raises no \<^verbatim>\<open>AssertionError\<close>.
\<close>

theorem init_asserts_has_pyqt_first:
  "(\<not> has_pyqt g \<longrightarrow>
      QtInteractor_init g env plotParams self parent s =
        (Some (AssertionError ''Requires PyQt5''), s))
   \<and> (\<not> PyQt5_QtCore_pyqtSignal_ok imp \<longrightarrow>
        QtInteractor_init (loaded imp g0) env plotParams self parent s =
          (Some (AssertionError ''Requires PyQt5''), s))
   \<and> (has_pyqt g \<longrightarrow>
        (\<forall>msg. fst (QtInteractor_init g env plotParams self parent s)
                 \<noteq> Some (AssertionError msg)))"
proof (intro conjI impI allI)
  assume "\<not> has_pyqt g"
  then show "QtInteractor_init g env plotParams self parent s =
      (Some (AssertionError ''Requires PyQt5''), s)"
    by (rule init_without_pyqt)
next
  assume "\<not> PyQt5_QtCore_pyqtSignal_ok imp"
  then have "\<not> has_pyqt (loaded imp g0)"
    by (simp add: loaded_has_pyqt)
  then show "QtInteractor_init (loaded imp g0) env plotParams self parent s =
      (Some (AssertionError ''Requires PyQt5''), s)"
    by (rule init_without_pyqt)
next
  fix msg
  assume "has_pyqt g"
  from init_with_pyqt_outcome [OF this, of env plotParams self parent s]
  show "fst (QtInteractor_init g env plotParams self parent s) \<noteq> Some (AssertionError msg)"
    by auto
qed

theorem init_asserts_has_pyqt_first_witness:
  "\<not> has_pyqt
        \<lparr>has_pyqt = False, QVTKRenderWindowInteractor = Dummy_QVTKRenderWindowInteractor,
         pyqtSignal = Dummy_pyqtSignal, QtInteractor = None\<rparr>
   \<and> QtInteractor_init
        \<lparr>has_pyqt = False, QVTKRenderWindowInteractor = Dummy_QVTKRenderWindowInteractor,
         pyqtSignal = Dummy_pyqtSignal, QtInteractor = None\<rparr>
        \<lparr>GetRenderWindow_result = Suc, GetInteractor_result = Suc,
         vtkInteractorStyleTrackballCamera_result = 9\<rparr>
        [''background'' \<mapsto> ''white''] 1 None
        \<lparr>renderer = Some 5, ren_win = None, iren = None, background_color = None, calls = []\<rparr>
     = (Some (AssertionError ''Requires PyQt5''),
        \<lparr>renderer = Some 5, ren_win = None, iren = None, background_color = None, calls = []\<rparr>)
   \<and> has_pyqt
        \<lparr>has_pyqt = True, QVTKRenderWindowInteractor = Vtk_QVTKRenderWindowInteractor,
         pyqtSignal = PyQt5_pyqtSignal, QtInteractor = None\<rparr>
   \<and> fst (QtInteractor_init
        \<lparr>has_pyqt = True, QVTKRenderWindowInteractor = Vtk_QVTKRenderWindowInteractor,
         pyqtSignal = PyQt5_pyqtSignal, QtInteractor = None\<rparr>
        \<lparr>GetRenderWindow_result = Suc, GetInteractor_result = Suc,
         vtkInteractorStyleTrackballCamera_result = 9\<rparr>
        [''background'' \<mapsto> ''white''] 1 None
        \<lparr>renderer = Some 5, ren_win = None, iren = None, background_color = None, calls = []\<rparr>)
     \<noteq> Some (AssertionError ''Requires PyQt5'')"
  using
    init_asserts_has_pyqt_first
      [of "\<lparr>has_pyqt = False, QVTKRenderWindowInteractor = Dummy_QVTKRenderWindowInteractor,
            pyqtSignal = Dummy_pyqtSignal, QtInteractor = None\<rparr>"
          "\<lparr>GetRenderWindow_result = Suc, GetInteractor_result = Suc,
            vtkInteractorStyleTrackballCamera_result = 9\<rparr>"
          "[''background'' \<mapsto> ''white'']" 1 None
          "\<lparr>renderer = Some 5, ren_win = None, iren = None, background_color = None,
            calls = []\<rparr>"]
    init_asserts_has_pyqt_first
      [of "\<lparr>has_pyqt = True, QVTKRenderWindowInteractor = Vtk_QVTKRenderWindowInteractor,
            pyqtSignal = PyQt5_pyqtSignal, QtInteractor = None\<rparr>"
          "\<lparr>GetRenderWindow_result = Suc, GetInteractor_result = Suc,
            vtkInteractorStyleTrackballCamera_result = 9\<rparr>"
          "[''background'' \<mapsto> ''white'']" 1 None
          "\<lparr>renderer = Some 5, ren_win = None, iren = None, background_color = None,
            calls = []\<rparr>"]
  by simp

text \<open>
  C1: the class statement gives \<^verbatim>\<open>QtInteractor\<close> the two bases
  \<^verbatim>\<open>QVTKRenderWindowInteractor\<close> and \<^verbatim>\<open>BasePlotter\<close>, in this order. In a loaded
  module with \<^verbatim>\<open>has_pyqt\<close> true, on an object whose \<^verbatim>\<open>renderer\<close> is set and with
  a \<^verbatim>\<open>'background'\<close> entry in \<^verbatim>\<open>plotParams\<close>, \<^verbatim>\<open>__init__\<close> returns normally, having
  initialised VTK's widget class, stored the widget's render window as
  \<^verbatim>\<open>ren_win\<close>, added \<^verbatim>\<open>renderer\<close> to it, stored its interactor as \<^verbatim>\<open>iren\<close>, set
  \<^verbatim>\<open>background_color\<close> to \<^verbatim>\<open>plotParams['background']\<close>, removed the
  \<^verbatim>\<open>'MouseMoveEvent'\<close> observers of the interactor, initialised it, installed a
  new \<^verbatim>\<open>vtkInteractorStyleTrackballCamera\<close> and added axes, in this order and
  with no other call.
\<close>

theorem QtInteractor_wires_interactor:
  assumes "has_pyqt (loaded imp g0)"
    and "renderer s = Some r"
    and "plotParams ''background'' = Some c"
  shows "map_option bases (QtInteractor (loaded imp g0)) =
      Some [QVTKRenderWindowInteractor (loaded imp g0), BasePlotter]
    \<and> QtInteractor_init (loaded imp g0) env plotParams self parent s =
      (let rw = GetRenderWindow_result env self;
           ir = GetInteractor_result env rw;
           istyle = vtkInteractorStyleTrackballCamera_result env
       in (None,
           s\<lparr>ren_win := Some rw, iren := Some ir, background_color := Some c,
             calls := calls s @
               [Call_base_init Vtk_QVTKRenderWindowInteractor self parent,
                Call_GetRenderWindow self,
                Call_AddRenderer rw r,
                Call_GetInteractor rw,
                Call_RemoveObservers ir ''MouseMoveEvent'',
                Call_Initialize ir,
                Call_vtkInteractorStyleTrackballCamera,
                Call_SetInteractorStyle self istyle,
                Call_add_axes self]\<rparr>))"
proof
  show "map_option bases (QtInteractor (loaded imp g0)) =
      Some [QVTKRenderWindowInteractor (loaded imp g0), BasePlotter]"
    by (simp add: loaded_QtInteractor)
next
  have cls: "QVTKRenderWindowInteractor (loaded imp g0) = Vtk_QVTKRenderWindowInteractor"
    using assms(1) by (rule loaded_has_pyqt_class)
  show "QtInteractor_init (loaded imp g0) env plotParams self parent s =
      (let rw = GetRenderWindow_result env self;
           ir = GetInteractor_result env rw;
           istyle = vtkInteractorStyleTrackballCamera_result env
       in (None,
           s\<lparr>ren_win := Some rw, iren := Some ir, background_color := Some c,
             calls := calls s @
               [Call_base_init Vtk_QVTKRenderWindowInteractor self parent,
                Call_GetRenderWindow self,
                Call_AddRenderer rw r,
                Call_GetInteractor rw,
                Call_RemoveObservers ir ''MouseMoveEvent'',
                Call_Initialize ir,
                Call_vtkInteractorStyleTrackballCamera,
                Call_SetInteractorStyle self istyle,
                Call_add_axes self]\<rparr>))"
    using init_wires
      [where g = "loaded imp g0" and s = s and r = r and plotParams = plotParams and c = c
         and env = env and self = self and parent = parent, OF assms]
    by (simp add: cls)
qed

theorem QtInteractor_wires_interactor_witness:
  "has_pyqt
     (loaded \<lparr>PyQt5_QtCore_pyqtSignal_ok = True, vtk_qt_QVTKRenderWindowInteractor_ok = True\<rparr>
        \<lparr>has_pyqt = False, QVTKRenderWindowInteractor = Dummy_QVTKRenderWindowInteractor,
         pyqtSignal = Dummy_pyqtSignal, QtInteractor = None\<rparr>)
   \<and> QtInteractor_init
       (loaded \<lparr>PyQt5_QtCore_pyqtSignal_ok = True, vtk_qt_QVTKRenderWindowInteractor_ok = True\<rparr>
          \<lparr>has_pyqt = False, QVTKRenderWindowInteractor = Dummy_QVTKRenderWindowInteractor,
           pyqtSignal = Dummy_pyqtSignal, QtInteractor = None\<rparr>)
       \<lparr>GetRenderWindow_result = (\<lambda>w. w + 10), GetInteractor_result = (\<lambda>w. w + 20),
        vtkInteractorStyleTrackballCamera_result = 9\<rparr>
       [''background'' \<mapsto> ''white''] 1 None
       \<lparr>renderer = Some 5, ren_win = None, iren = None, background_color = None, calls = []\<rparr>
     = (None,
        \<lparr>renderer = Some 5, ren_win = Some 11, iren = Some 31,
         background_color = Some ''white'',
         calls =
           [Call_base_init Vtk_QVTKRenderWindowInteractor 1 None,
            Call_GetRenderWindow 1,
            Call_AddRenderer 11 5,
            Call_GetInteractor 11,
            Call_RemoveObservers 31 ''MouseMoveEvent'',
            Call_Initialize 31,
            Call_vtkInteractorStyleTrackballCamera,
            Call_SetInteractorStyle 1 9,
            Call_add_axes 1]\<rparr>)"
proof -
  have h1: "has_pyqt
     (loaded \<lparr>PyQt5_QtCore_pyqtSignal_ok = True, vtk_qt_QVTKRenderWindowInteractor_ok = True\<rparr>
        \<lparr>has_pyqt = False, QVTKRenderWindowInteractor = Dummy_QVTKRenderWindowInteractor,
         pyqtSignal = Dummy_pyqtSignal, QtInteractor = None\<rparr>)"
    by (simp add: loaded_has_pyqt)
  have h2: "renderer
     \<lparr>renderer = Some 5, ren_win = None, iren = None,
      background_color = (None :: string option), calls = []\<rparr> = Some 5"
    by simp
  have h3: "[''background'' \<mapsto> ''white''] ''background'' = Some ''white''"
    by simp
  from QtInteractor_wires_interactor
      [where plotParams = "[''background'' \<mapsto> ''white'']" and c = "''white''"
         and env = "\<lparr>GetRenderWindow_result = (\<lambda>w. w + 10),
                     GetInteractor_result = (\<lambda>w. w + 20),
                     vtkInteractorStyleTrackballCamera_result = 9\<rparr>"
         and self = 1 and parent = None, OF h1 h2 h3]
  show ?thesis using h1 by (simp add: Let_def)
qed

end
